theory Spec2Isabelle
  imports Complex_Main
begin

section \<open>JavaScript numbers\<close>

text \<open>
  The program computes with JavaScript numbers. They are modelled as the extended reals
  with a not-a-number value: a finite value \<open>Num r\<close>, the two infinities and \<open>NaN\<close>.
  Division by zero, products of zero and infinity and differences of infinities give what
  ECMAScript gives: an infinity or \<open>NaN\<close>. Zero is unsigned (it behaves as \<open>+0\<close>).

  Arithmetic on finite values is exact: the rounding of each result to double precision,
  and with it overflow to an infinity and underflow to zero, is not modelled. The theorems
  on the metrics and on the diagram state which expression of which values each result is,
  the outcome of the tests the code makes, and comparisons with zero. Equalities between
  the results of different sequences of operations, which hold only up to rounding, are not
  stated. The values given at concrete inputs are those of exact arithmetic.
\<close>

datatype number = Num real | PosInf | NegInf | NaN

fun is_finite :: "number \<Rightarrow> bool" where
  "is_finite (Num r) = True"
| "is_finite PosInf = False"
| "is_finite NegInf = False"
| "is_finite NaN = False"

fun negate :: "number \<Rightarrow> number" where
  "negate (Num r) = Num (- r)"
| "negate PosInf = NegInf"
| "negate NegInf = PosInf"
| "negate NaN = NaN"

fun js_add :: "number \<Rightarrow> number \<Rightarrow> number" where
  "js_add NaN b = NaN"
| "js_add a NaN = NaN"
| "js_add (Num a) (Num b) = Num (a + b)"
| "js_add PosInf NegInf = NaN"
| "js_add NegInf PosInf = NaN"
| "js_add PosInf b = PosInf"
| "js_add NegInf b = NegInf"
| "js_add (Num a) b = b"

fun js_mul :: "number \<Rightarrow> number \<Rightarrow> number" where
  "js_mul NaN b = NaN"
| "js_mul a NaN = NaN"
| "js_mul (Num a) (Num b) = Num (a * b)"
| "js_mul (Num a) PosInf = (if a = 0 then NaN else if 0 < a then PosInf else NegInf)"
| "js_mul (Num a) NegInf = (if a = 0 then NaN else if 0 < a then NegInf else PosInf)"
| "js_mul PosInf (Num b) = (if b = 0 then NaN else if 0 < b then PosInf else NegInf)"
| "js_mul NegInf (Num b) = (if b = 0 then NaN else if 0 < b then NegInf else PosInf)"
| "js_mul PosInf PosInf = PosInf"
| "js_mul PosInf NegInf = NegInf"
| "js_mul NegInf PosInf = NegInf"
| "js_mul NegInf NegInf = PosInf"

fun js_div :: "number \<Rightarrow> number \<Rightarrow> number" where
  "js_div NaN b = NaN"
| "js_div a NaN = NaN"
| "js_div (Num a) (Num b) =
     (if b = 0 then (if a = 0 then NaN else if 0 < a then PosInf else NegInf)
      else Num (a / b))"
| "js_div (Num a) PosInf = Num 0"
| "js_div (Num a) NegInf = Num 0"
| "js_div PosInf (Num b) = (if 0 \<le> b then PosInf else NegInf)"
| "js_div NegInf (Num b) = (if 0 \<le> b then NegInf else PosInf)"
| "js_div PosInf b = NaN"
| "js_div NegInf b = NaN"

text \<open>The comparison \<open>a < b\<close> of ECMAScript: false as soon as one side is \<open>NaN\<close>.\<close>

fun js_less :: "number \<Rightarrow> number \<Rightarrow> bool" where
  "js_less NaN b = False"
| "js_less a NaN = False"
| "js_less (Num a) (Num b) = (a < b)"
| "js_less a NegInf = False"
| "js_less PosInf b = False"
| "js_less NegInf b = True"
| "js_less (Num a) PosInf = True"

fun js_less_eq :: "number \<Rightarrow> number \<Rightarrow> bool" where
  "js_less_eq NaN b = False"
| "js_less_eq a NaN = False"
| "js_less_eq (Num a) (Num b) = (a \<le> b)"
| "js_less_eq NegInf b = True"
| "js_less_eq a PosInf = True"
| "js_less_eq PosInf b = False"
| "js_less_eq (Num a) NegInf = False"

instantiation number :: "{plus, minus, times, inverse, ord}"
begin

definition plus_number :: "number \<Rightarrow> number \<Rightarrow> number" where
  "plus_number a b = js_add a b"

definition minus_number :: "number \<Rightarrow> number \<Rightarrow> number" where
  "minus_number a b = js_add a (negate b)"

definition times_number :: "number \<Rightarrow> number \<Rightarrow> number" where
  "times_number a b = js_mul a b"

definition divide_number :: "number \<Rightarrow> number \<Rightarrow> number" where
  "divide_number a b = js_div a b"

definition inverse_number :: "number \<Rightarrow> number" where
  "inverse_number a = js_div (Num 1) a"

definition less_number :: "number \<Rightarrow> number \<Rightarrow> bool" where
  "less_number a b = js_less a b"

definition less_eq_number :: "number \<Rightarrow> number \<Rightarrow> bool" where
  "less_eq_number a b = js_less_eq a b"

instance ..

end

text \<open>
  \<open>Math.max\<close> and \<open>Math.min\<close> of two arguments: \<open>NaN\<close> if one argument is \<open>NaN\<close>,
  the larger (smaller) one otherwise.
\<close>

definition Math_max :: "number \<Rightarrow> number \<Rightarrow> number" where
  "Math_max a b = (if a = NaN \<or> b = NaN then NaN else if a < b then b else a)"

definition Math_min :: "number \<Rightarrow> number \<Rightarrow> number" where
  "Math_min a b = (if a = NaN \<or> b = NaN then NaN else if b < a then b else a)"

text \<open>
  The idiom \<open>x || 0\<close> on a number: \<open>x\<close> is falsy when it is zero or \<open>NaN\<close>, and the
  expression is then \<open>0\<close>.
\<close>

definition or_zero :: "number \<Rightarrow> number" where
  "or_zero x = (if x = Num 0 \<or> x = NaN then Num 0 else x)"


section \<open>The input set and the derived metrics\<close>

text \<open>The state \<open>inputs\<close> of the component \<open>PlotDiagramApp\<close> and its initial value.\<close>

record inputs =
  plotWidth :: number
  plotLength :: number
  roadWidth :: number
  parkingWidth :: number
  parkingLength :: number
  setbackFront :: number
  setbackBack :: number
  setbackLeft :: number
  setbackRight :: number
  floors :: number

definition initial_inputs :: inputs where
  "initial_inputs =
     \<lparr> plotWidth = Num 30, plotLength = Num 60, roadWidth = Num 30,
       parkingWidth = Num 18, parkingLength = Num 18,
       setbackFront = Num 10, setbackBack = Num 5, setbackLeft = Num 5,
       setbackRight = Num 5, floors = Num 5 \<rparr>"

text \<open>The state \<open>elements\<close> of \<open>PlotDiagramApp\<close>: the two toggles.\<close>

record elements =
  parking :: bool
  staircase :: bool

definition initial_elements :: elements where
  "initial_elements = \<lparr> parking = True, staircase = False \<rparr>"

text \<open>
  The state \<open>inputs\<close> of the second component, \<open>App\<close>: the same ten numbers, the two
  toggles and the staircase placement.
\<close>

record inputs_App = inputs +
  addParking :: bool
  addStaircase :: bool
  stairWidth :: number
  stairLength :: number
  stairX :: number
  stairY :: number

definition initial_inputs_App :: inputs_App where
  "initial_inputs_App =
     \<lparr> plotWidth = Num 30, plotLength = Num 60, roadWidth = Num 30,
       parkingWidth = Num 18, parkingLength = Num 18,
       setbackFront = Num 10, setbackBack = Num 5, setbackLeft = Num 5,
       setbackRight = Num 5, floors = Num 5,
       addParking = True, addStaircase = True,
       stairWidth = Num 6, stairLength = Num 10, stairX = Num 0, stairY = Num 0 \<rparr>"

text \<open>The object returned by \<open>calculations\<close>.\<close>

record metrics =
  plotArea :: number
  totalBUA :: number
  groundCoverage :: number
  far :: number
  buildableWidth :: number
  buildableLength :: number


definition calculations :: "inputs \<Rightarrow> metrics" where
  "calculations i =
     (let plotArea = plotWidth i * plotLength i;
          buildableWidth = plotWidth i - setbackLeft i - setbackRight i;
          buildableLength = plotLength i - setbackFront i - setbackBack i;
          validBuildableWidth = Math_max (Num 0) buildableWidth;
          validBuildableLength = Math_max (Num 0) buildableLength;
          groundFloorArea = validBuildableWidth * validBuildableLength;
          totalBUA = groundFloorArea * floors i;
          groundCoverage =
            (if Num 0 < plotArea then (groundFloorArea / plotArea) * Num 100 else Num 0);
          far = (if Num 0 < plotArea then totalBUA / plotArea else Num 0)
      in \<lparr> plotArea = plotArea, totalBUA = totalBUA, groundCoverage = groundCoverage,
           far = far, buildableWidth = validBuildableWidth,
           buildableLength = validBuildableLength \<rparr>)"

text \<open>The same in the component \<open>App\<close>, where the clamp is written in one step.\<close>

definition calculations_App :: "inputs_App \<Rightarrow> metrics" where
  "calculations_App i =
     (let plotArea = plotWidth i * plotLength i;
          buildableWidth = Math_max (Num 0) (plotWidth i - setbackLeft i - setbackRight i);
          buildableLength = Math_max (Num 0) (plotLength i - setbackFront i - setbackBack i);
          groundFloorArea = buildableWidth * buildableLength;
          totalBUA = groundFloorArea * floors i;
          groundCoverage =
            (if Num 0 < plotArea then (groundFloorArea / plotArea) * Num 100 else Num 0);
          far = (if Num 0 < plotArea then totalBUA / plotArea else Num 0)
      in \<lparr> plotArea = plotArea, totalBUA = totalBUA, groundCoverage = groundCoverage,
           far = far, buildableWidth = buildableWidth,
           buildableLength = buildableLength \<rparr>)"


text \<open>
  The contract of the Metrics Calculator as the specification words it, for plot width
  \<open>W\<close>, plot length \<open>L\<close>, front, back, left and right setbacks \<open>sF\<close>, \<open>sB\<close>, \<open>sL\<close>, \<open>sR\<close>
  and floor count \<open>F\<close>, in the arithmetic of the program's numbers. It names seven values;
  the ground floor area is one of them.
\<close>

record derived_metrics =
  spec_plotArea :: number
  spec_buildableWidth :: number
  spec_buildableLength :: number
  spec_groundFloorArea :: number
  spec_totalBuiltUpArea :: number
  spec_groundCoverage :: number
  spec_floorAreaRatio :: number

definition Metrics_Calculator ::
  "number \<Rightarrow> number \<Rightarrow> number \<Rightarrow> number \<Rightarrow> number \<Rightarrow> number \<Rightarrow> number \<Rightarrow> derived_metrics" where
  "Metrics_Calculator W L sF sB sL sR F =
     (let plotArea = W * L;
          buildableWidth = Math_max (Num 0) (W - sL - sR);
          buildableLength = Math_max (Num 0) (L - sF - sB);
          groundFloorArea = buildableWidth * buildableLength;
          totalBuiltUpArea = groundFloorArea * F;
          groundCoverage =
            (if plotArea > Num 0 then (groundFloorArea / plotArea) * Num 100 else Num 0);
          floorAreaRatio = (if plotArea > Num 0 then totalBuiltUpArea / plotArea else Num 0)
      in \<lparr> spec_plotArea = plotArea, spec_buildableWidth = buildableWidth,
           spec_buildableLength = buildableLength, spec_groundFloorArea = groundFloorArea,
           spec_totalBuiltUpArea = totalBuiltUpArea, spec_groundCoverage = groundCoverage,
           spec_floorAreaRatio = floorAreaRatio \<rparr>)"


section \<open>Editing a field\<close>

text \<open>
  The form renders one number input per key of \<open>inputs\<close>, with that key as its \<open>name\<close>,
  so the \<open>name\<close> of a change event ranges over the keys. \<open>get_key\<close> is the read
  \<open>inputs[key]\<close>, \<open>set_key\<close> the object \<open>{ ...inputs, [name]: v }\<close>.
\<close>

datatype key =
  PlotWidth | PlotLength | RoadWidth | ParkingWidth | ParkingLength
  | SetbackFront | SetbackBack | SetbackLeft | SetbackRight | Floors

fun get_key :: "key \<Rightarrow> 'a inputs_scheme \<Rightarrow> number" where
  "get_key PlotWidth i = plotWidth i"
| "get_key PlotLength i = plotLength i"
| "get_key RoadWidth i = roadWidth i"
| "get_key ParkingWidth i = parkingWidth i"
| "get_key ParkingLength i = parkingLength i"
| "get_key SetbackFront i = setbackFront i"
| "get_key SetbackBack i = setbackBack i"
| "get_key SetbackLeft i = setbackLeft i"
| "get_key SetbackRight i = setbackRight i"
| "get_key Floors i = floors i"

fun set_key :: "key \<Rightarrow> number \<Rightarrow> 'a inputs_scheme \<Rightarrow> 'a inputs_scheme" where
  "set_key PlotWidth v i = i\<lparr>plotWidth := v\<rparr>"
| "set_key PlotLength v i = i\<lparr>plotLength := v\<rparr>"
| "set_key RoadWidth v i = i\<lparr>roadWidth := v\<rparr>"
| "set_key ParkingWidth v i = i\<lparr>parkingWidth := v\<rparr>"
| "set_key ParkingLength v i = i\<lparr>parkingLength := v\<rparr>"
| "set_key SetbackFront v i = i\<lparr>setbackFront := v\<rparr>"
| "set_key SetbackBack v i = i\<lparr>setbackBack := v\<rparr>"
| "set_key SetbackLeft v i = i\<lparr>setbackLeft := v\<rparr>"
| "set_key SetbackRight v i = i\<lparr>setbackRight := v\<rparr>"
| "set_key Floors v i = i\<lparr>floors := v\<rparr>"

text \<open>
  The target of a change event in \<open>PlotDiagramApp\<close>: the name of the input and the text
  in it. \<open>parseFloat\<close> is the built-in of the language; \<open>handleChange\<close> takes it as a
  parameter, so what is proved holds for whatever number or \<open>NaN\<close> it returns.
\<close>

record target =
  name :: key
  text_value :: string

definition handleChange :: "(string \<Rightarrow> number) \<Rightarrow> inputs \<Rightarrow> target \<Rightarrow> inputs" where
  "handleChange parseFloat inputs e =
     set_key (name e) (Math_max (Num 0) (or_zero (parseFloat (text_value e)))) inputs"

text \<open>
  In \<open>App\<close> the form has the same ten number inputs and two checkboxes, named
  \<open>addParking\<close> and \<open>addStaircase\<close>; the staircase fields have no input. A change event
  comes from one of the two kinds of input: its \<open>type\<close> is \<open>checkbox\<close> exactly for a
  checkbox, and \<open>handleChange\<close> then stores \<open>checked\<close>.
\<close>

datatype toggle = AddParking | AddStaircase

datatype target_App =
  NumberInput key string
  | Checkbox toggle bool

fun handleChange_App :: "(string \<Rightarrow> number) \<Rightarrow> inputs_App \<Rightarrow> target_App \<Rightarrow> inputs_App" where
  "handleChange_App parseFloat inputs (Checkbox AddParking checked) =
     inputs\<lparr>addParking := checked\<rparr>"
| "handleChange_App parseFloat inputs (Checkbox AddStaircase checked) =
     inputs\<lparr>addStaircase := checked\<rparr>"
| "handleChange_App parseFloat inputs (NumberInput k v) =
     set_key k (Math_max (Num 0) (or_zero (parseFloat v))) inputs"

text \<open>\<open>handleToggle\<close> of \<open>PlotDiagramApp\<close>, on the two names its buttons pass.\<close>

datatype element_name = Parking | Staircase

fun handleToggle :: "elements \<Rightarrow> element_name \<Rightarrow> elements" where
  "handleToggle elements Parking = elements\<lparr>parking := \<not> parking elements\<rparr>"
| "handleToggle elements Staircase = elements\<lparr>staircase := \<not> staircase elements\<rparr>"

text \<open>The invariant of the input set: every numeric field is a number that is \<open>\<ge> 0\<close>.\<close>

definition nonnegative :: "'a inputs_scheme \<Rightarrow> bool" where
  "nonnegative i \<longleftrightarrow>
     Num 0 \<le> plotWidth i \<and> Num 0 \<le> plotLength i \<and> Num 0 \<le> roadWidth i \<and>
     Num 0 \<le> parkingWidth i \<and> Num 0 \<le> parkingLength i \<and>
     Num 0 \<le> setbackFront i \<and> Num 0 \<le> setbackBack i \<and>
     Num 0 \<le> setbackLeft i \<and> Num 0 \<le> setbackRight i \<and> Num 0 \<le> floors i"

definition nonnegative_App :: "inputs_App \<Rightarrow> bool" where
  "nonnegative_App i \<longleftrightarrow>
     nonnegative i \<and> Num 0 \<le> stairWidth i \<and> Num 0 \<le> stairLength i \<and>
     Num 0 \<le> stairX i \<and> Num 0 \<le> stairY i"


section \<open>The diagram\<close>

text \<open>
  What \<open>PlotDiagramSVG\<close> returns: the placeholder \<open>div\<close> with the text
  ``Enter valid dimensions'', or an \<open>svg\<close> element. The \<open>svg\<close> is modelled by its size and
  the geometry of its children, which lie in a group translated by the padding; a child that
  is rendered under a condition is an option.
\<close>

record rect =
  rect_x :: number
  rect_y :: number
  rect_width :: number
  rect_height :: number

datatype label = Compass_N | Road_ft number | Buildable_Area | Dimension_ft number

record text_el =
  text_x :: number
  text_y :: number
  text_label :: label

datatype path_cmd = MoveTo number number | LineTo number number

record drawing =
  svgWidth :: number
  svgHeight :: number
  plotRect :: rect
  roadRect :: rect
  roadText :: text_el
  buildableRect :: rect
  buildableText :: text_el
  parkingRect :: "rect option"
  staircaseRect :: "rect option"

text \<open>The \<open>svg\<close> of \<open>PlotDiagramApp\<close> has a compass and two dimension lines besides.\<close>

record drawing_annotated = drawing +
  compassText :: text_el
  compassPath :: "path_cmd list"
  widthDimPath :: "path_cmd list"
  widthDimText :: text_el
  lengthDimPath :: "path_cmd list"
  lengthDimText :: text_el
  lengthDimRotate :: "number \<times> number \<times> number"

datatype 'd element = Enter_valid_dimensions | Svg 'd

definition PADDING :: number where
  "PADDING = Num 20"

definition MAX_SIZE :: number where
  "MAX_SIZE = Num 500"

definition totalWidthFt :: "'a inputs_scheme \<Rightarrow> number" where
  "totalWidthFt inputs = plotWidth inputs"

definition totalHeightFt :: "'a inputs_scheme \<Rightarrow> number" where
  "totalHeightFt inputs = plotLength inputs + roadWidth inputs"

text \<open>The local constant \<open>scale\<close>, the same expression in both components.\<close>

definition scale :: "'a inputs_scheme \<Rightarrow> number" where
  "scale inputs =
     Math_min (MAX_SIZE / totalWidthFt inputs) (MAX_SIZE / totalHeightFt inputs)"

text \<open>
  \<open>PlotDiagramSVG\<close> of \<open>PlotDiagramApp\<close>. It returns the placeholder before \<open>scale\<close> is
  computed when an extent is not positive.
\<close>

definition PlotDiagramSVG :: "inputs \<Rightarrow> metrics \<Rightarrow> elements \<Rightarrow> drawing_annotated element" where
  "PlotDiagramSVG inputs buildable elements =
     (if totalWidthFt inputs \<le> Num 0 \<or> totalHeightFt inputs \<le> Num 0
      then Enter_valid_dimensions
      else
        let scale = scale inputs;
            svgWidth = totalWidthFt inputs * scale + PADDING * Num 2;
            svgHeight = totalHeightFt inputs * scale + PADDING * Num 2;
            pW = plotWidth inputs * scale;
            pL = plotLength inputs * scale;
            rW = roadWidth inputs * scale;
            sF = setbackFront inputs * scale;
            sB = setbackBack inputs * scale;
            sL = setbackLeft inputs * scale;
            sR = setbackRight inputs * scale;
            bW = buildableWidth buildable * scale;
            bL = buildableLength buildable * scale;
            parkW = parkingWidth inputs * scale;
            parkL = parkingLength inputs * scale;
            parkX = sL + (bW - parkW) / Num 2;
            parkY = sB + bL - parkL;
            stairW = Num 8 * scale;
            stairL = Num 12 * scale;
            stairX = sL + Num 10;
            stairY = sB + Num 10
        in Svg
          \<lparr> svgWidth = svgWidth, svgHeight = svgHeight,
            plotRect = \<lparr> rect_x = Num 0, rect_y = Num 0, rect_width = pW, rect_height = pL \<rparr>,
            roadRect = \<lparr> rect_x = Num 0, rect_y = pL, rect_width = pW, rect_height = rW \<rparr>,
            roadText = \<lparr> text_x = pW / Num 2, text_y = pL + rW / Num 2,
                         text_label = Road_ft (roadWidth inputs) \<rparr>,
            buildableRect = \<lparr> rect_x = sL, rect_y = sB, rect_width = bW, rect_height = bL \<rparr>,
            buildableText = \<lparr> text_x = sL + bW / Num 2, text_y = sB + bL / Num 2,
                              text_label = Buildable_Area \<rparr>,
            parkingRect =
              (if parking elements \<and> parkingWidth inputs > Num 0 \<and> parkingLength inputs > Num 0
               then Some \<lparr> rect_x = parkX, rect_y = parkY,
                           rect_width = parkW, rect_height = parkL \<rparr>
               else None),
            staircaseRect =
              (if staircase elements
               then Some \<lparr> rect_x = stairX, rect_y = stairY,
                           rect_width = stairW, rect_height = stairL \<rparr>
               else None),
            compassText = \<lparr> text_x = pW - Num 10, text_y = Num (- 5), text_label = Compass_N \<rparr>,
            compassPath =
              [MoveTo (pW - Num 10) (Num 0), LineTo (pW - Num 10) (Num 15),
               MoveTo (pW - Num 10) (Num 0), LineTo (pW - Num 13) (Num 5),
               MoveTo (pW - Num 10) (Num 0), LineTo (pW - Num 7) (Num 5)],
            widthDimPath = [MoveTo (Num 0) (pL + Num 15), LineTo pW (pL + Num 15)],
            widthDimText = \<lparr> text_x = pW / Num 2, text_y = pL + Num 25,
                             text_label = Dimension_ft (plotWidth inputs) \<rparr>,
            lengthDimPath = [MoveTo (pW + Num 15) (Num 0), LineTo (pW + Num 15) pL],
            lengthDimText = \<lparr> text_x = pW + Num 25, text_y = pL / Num 2,
                              text_label = Dimension_ft (plotLength inputs) \<rparr>,
            lengthDimRotate = (Num (- 90), pW + Num 25, pL / Num 2) \<rparr>)"

text \<open>
  \<open>PlotDiagramSVG\<close> of \<open>App\<close>. It has no test of the extents: \<open>scale\<close> is computed for
  every input, and an \<open>svg\<close> is always returned.
\<close>

definition PlotDiagramSVG_App :: "inputs_App \<Rightarrow> metrics \<Rightarrow> drawing element" where
  "PlotDiagramSVG_App inputs buildable =
     (let scale = scale inputs;
          svgWidth = totalWidthFt inputs * scale + PADDING * Num 2;
          svgHeight = totalHeightFt inputs * scale + PADDING * Num 2;
          pW = plotWidth inputs * scale;
          pL = plotLength inputs * scale;
          rW = roadWidth inputs * scale;
          sF = setbackFront inputs * scale;
          sB = setbackBack inputs * scale;
          sL = setbackLeft inputs * scale;
          sR = setbackRight inputs * scale;
          bW = buildableWidth buildable * scale;
          bL = buildableLength buildable * scale
      in Svg
        \<lparr> svgWidth = svgWidth, svgHeight = svgHeight,
          plotRect = \<lparr> rect_x = Num 0, rect_y = Num 0, rect_width = pW, rect_height = pL \<rparr>,
          roadRect = \<lparr> rect_x = Num 0, rect_y = pL, rect_width = pW, rect_height = rW \<rparr>,
          roadText = \<lparr> text_x = pW / Num 2, text_y = pL + rW / Num 2,
                       text_label = Road_ft (roadWidth inputs) \<rparr>,
          buildableRect = \<lparr> rect_x = sL, rect_y = sB, rect_width = bW, rect_height = bL \<rparr>,
          buildableText = \<lparr> text_x = sL + bW / Num 2, text_y = sB + bL / Num 2,
                            text_label = Buildable_Area \<rparr>,
          parkingRect =
            (if addParking inputs \<and> parkingWidth inputs > Num 0 \<and> parkingLength inputs > Num 0
             then Some \<lparr> rect_x = sL + (bW - parkingWidth inputs * scale) / Num 2,
                         rect_y = sB + bL - parkingLength inputs * scale,
                         rect_width = parkingWidth inputs * scale,
                         rect_height = parkingLength inputs * scale \<rparr>
             else None),
          staircaseRect =
            (if addStaircase inputs \<and> stairWidth inputs > Num 0 \<and> stairLength inputs > Num 0
             then Some \<lparr> rect_x = stairX inputs * scale, rect_y = stairY inputs * scale,
                         rect_width = stairWidth inputs * scale,
                         rect_height = stairLength inputs * scale \<rparr>
             else None) \<rparr>)"


section \<open>Arithmetic on finite numbers\<close>

lemma Num_arith:
  "Num a + Num b = Num (a + b)"
  "Num a - Num b = Num (a - b)"
  "Num a * Num b = Num (a * b)"
  "Num a / Num b =
     (if b = 0 then (if a = 0 then NaN else if 0 < a then PosInf else NegInf) else Num (a / b))"
  "(Num a < Num b) = (a < b)"
  "(Num a \<le> Num b) = (a \<le> b)"
  by (simp_all add: plus_number_def minus_number_def times_number_def divide_number_def
        less_number_def less_eq_number_def)

lemma Math_max_Num: "Math_max (Num a) (Num b) = Num (max a b)"
  by (simp add: Math_max_def less_number_def max_def)

lemma Math_min_Num: "Math_min (Num a) (Num b) = Num (min a b)"
  by (simp add: Math_min_def less_number_def min_def)


section \<open>The metrics\<close>

text \<open>What \<open>calculations\<close> returns on finite numbers, field by field.\<close>

lemma calculations_Num:
  assumes "plotWidth i = Num W" "plotLength i = Num L"
    and "setbackFront i = Num sF" "setbackBack i = Num sB"
    and "setbackLeft i = Num sL" "setbackRight i = Num sR" "floors i = Num F"
  shows "calculations i =
   \<lparr> plotArea = Num (W * L),
     totalBUA = Num (max 0 (W - sL - sR) * max 0 (L - sF - sB) * F),
     groundCoverage =
       Num (if 0 < W * L then max 0 (W - sL - sR) * max 0 (L - sF - sB) / (W * L) * 100 else 0),
     far = Num (if 0 < W * L then max 0 (W - sL - sR) * max 0 (L - sF - sB) * F / (W * L) else 0),
     buildableWidth = Num (max 0 (W - sL - sR)),
     buildableLength = Num (max 0 (L - sF - sB)) \<rparr>"
  using assms by (auto simp add: calculations_def Let_def Num_arith Math_max_Num)

text \<open>
  The component \<open>App\<close> computes the metrics of \<open>PlotDiagramApp\<close> on its first ten fields.
\<close>

lemma calculations_App_eq:
  "calculations_App j = calculations (inputs.truncate j)"
  by (simp add: calculations_App_def calculations_def inputs.truncate_def Let_def)

lemma truncate_initial: "inputs.truncate initial_inputs_App = initial_inputs"
  by (simp add: inputs.truncate_def initial_inputs_App_def initial_inputs_def)

lemma initial_fields:
  "plotWidth initial_inputs = Num 30" "plotLength initial_inputs = Num 60"
  "setbackFront initial_inputs = Num 10" "setbackBack initial_inputs = Num 5"
  "setbackLeft initial_inputs = Num 5" "setbackRight initial_inputs = Num 5"
  "floors initial_inputs = Num 5"
  by (simp_all add: initial_inputs_def)

text \<open>
  When the test \<open>plotArea > 0\<close> fails, whatever the numbers are (infinite or \<open>NaN\<close>
  included), the two ratios are the constant \<open>0\<close>: no quotient enters the result.
\<close>

lemma calculations_guard:
  assumes "\<not> Num 0 < plotWidth i * plotLength i"
  shows "groundCoverage (calculations i) = Num 0 \<and> far (calculations i) = Num 0"
  using assms by (simp add: calculations_def Let_def)


text \<open>
  C1. What both components return is the contract: the plot area is \<open>W * L\<close>, the
  buildable width \<open>max(0, W - sL - sR)\<close>, the buildable length \<open>max(0, L - sF - sB)\<close>,
  the total built-up area the product of these two (the ground floor area) times \<open>F\<close>, the
  coverage \<open>groundFloorArea / plotArea * 100\<close> and the floor area ratio
  \<open>totalBuiltUpArea / plotArea\<close> when \<open>plotArea > 0\<close> and \<open>0\<close> otherwise, each operation
  being the program's. This holds for all numbers, not only non-negative ones. The ground
  floor area is a local constant of the code and not a field of the object returned; it is
  the product of the two buildable dimensions returned. For width 30, length 60, setbacks
  10, 5, 5, 5 and 5 floors, which is the initial state, the values are 1800, 20, 45, 900,
  4500, 50 and 2.5.
\<close>

theorem calculations_formulas:
  "(let s = Metrics_Calculator (plotWidth i) (plotLength i) (setbackFront i) (setbackBack i)
             (setbackLeft i) (setbackRight i) (floors i)
    in calculations i =
         \<lparr> plotArea = spec_plotArea s, totalBUA = spec_totalBuiltUpArea s,
           groundCoverage = spec_groundCoverage s, far = spec_floorAreaRatio s,
           buildableWidth = spec_buildableWidth s,
           buildableLength = spec_buildableLength s \<rparr> \<and>
       spec_groundFloorArea s =
         buildableWidth (calculations i) * buildableLength (calculations i)) \<and>
   (let s = Metrics_Calculator (plotWidth j) (plotLength j) (setbackFront j) (setbackBack j)
             (setbackLeft j) (setbackRight j) (floors j)
    in calculations_App j =
         \<lparr> plotArea = spec_plotArea s, totalBUA = spec_totalBuiltUpArea s,
           groundCoverage = spec_groundCoverage s, far = spec_floorAreaRatio s,
           buildableWidth = spec_buildableWidth s,
           buildableLength = spec_buildableLength s \<rparr> \<and>
       spec_groundFloorArea s =
         buildableWidth (calculations_App j) * buildableLength (calculations_App j)) \<and>
   Metrics_Calculator (Num 30) (Num 60) (Num 10) (Num 5) (Num 5) (Num 5) (Num 5) =
     \<lparr> spec_plotArea = Num 1800, spec_buildableWidth = Num 20, spec_buildableLength = Num 45,
       spec_groundFloorArea = Num 900, spec_totalBuiltUpArea = Num 4500,
       spec_groundCoverage = Num 50, spec_floorAreaRatio = Num 2.5 \<rparr> \<and>
   calculations initial_inputs =
     \<lparr> plotArea = Num 1800, totalBUA = Num 4500, groundCoverage = Num 50, far = Num 2.5,
       buildableWidth = Num 20, buildableLength = Num 45 \<rparr> \<and>
   calculations_App initial_inputs_App =
     \<lparr> plotArea = Num 1800, totalBUA = Num 4500, groundCoverage = Num 50, far = Num 2.5,
       buildableWidth = Num 20, buildableLength = Num 45 \<rparr>"
proof -
  have a: "let s = Metrics_Calculator (plotWidth i) (plotLength i) (setbackFront i)
             (setbackBack i) (setbackLeft i) (setbackRight i) (floors i)
    in calculations i =
         \<lparr> plotArea = spec_plotArea s, totalBUA = spec_totalBuiltUpArea s,
           groundCoverage = spec_groundCoverage s, far = spec_floorAreaRatio s,
           buildableWidth = spec_buildableWidth s,
           buildableLength = spec_buildableLength s \<rparr> \<and>
       spec_groundFloorArea s =
         buildableWidth (calculations i) * buildableLength (calculations i)"
    by (simp add: calculations_def Metrics_Calculator_def Let_def)
  have b: "let s = Metrics_Calculator (plotWidth j) (plotLength j) (setbackFront j)
             (setbackBack j) (setbackLeft j) (setbackRight j) (floors j)
    in calculations_App j =
         \<lparr> plotArea = spec_plotArea s, totalBUA = spec_totalBuiltUpArea s,
           groundCoverage = spec_groundCoverage s, far = spec_floorAreaRatio s,
           buildableWidth = spec_buildableWidth s,
           buildableLength = spec_buildableLength s \<rparr> \<and>
       spec_groundFloorArea s =
         buildableWidth (calculations_App j) * buildableLength (calculations_App j)"
    by (simp add: calculations_App_def Metrics_Calculator_def Let_def)
  have c: "Metrics_Calculator (Num 30) (Num 60) (Num 10) (Num 5) (Num 5) (Num 5) (Num 5) =
     \<lparr> spec_plotArea = Num 1800, spec_buildableWidth = Num 20, spec_buildableLength = Num 45,
       spec_groundFloorArea = Num 900, spec_totalBuiltUpArea = Num 4500,
       spec_groundCoverage = Num 50, spec_floorAreaRatio = Num 2.5 \<rparr>"
    by (simp add: Metrics_Calculator_def Let_def Num_arith Math_max_Num)
  have d: "calculations initial_inputs =
     \<lparr> plotArea = Num 1800, totalBUA = Num 4500, groundCoverage = Num 50, far = Num 2.5,
       buildableWidth = Num 20, buildableLength = Num 45 \<rparr>"
    using calculations_Num [OF initial_fields] by simp
  have e: "calculations_App initial_inputs_App =
     \<lparr> plotArea = Num 1800, totalBUA = Num 4500, groundCoverage = Num 50, far = Num 2.5,
       buildableWidth = Num 20, buildableLength = Num 45 \<rparr>"
    unfolding calculations_App_eq truncate_initial by (rule d)
  show ?thesis
    using a b c d e by (intro conjI)
qed

text \<open>
  C5. When the plot area \<open>W * L\<close> is zero, the coverage and the floor area ratio are the
  number \<open>0\<close>, and every other field of the result is finite: no infinity and no \<open>NaN\<close>
  comes out. (That the quotient is not used is \<open>calculations_guard\<close>.)
\<close>

theorem zero_plotArea:
  assumes "plotWidth i = Num W" "plotLength i = Num L"
    and "setbackFront i = Num sF" "setbackBack i = Num sB"
    and "setbackLeft i = Num sL" "setbackRight i = Num sR" "floors i = Num F"
    and "inputs.truncate j = i"
    and "W * L = 0"
  shows "plotArea (calculations i) = Num 0 \<and>
         groundCoverage (calculations i) = Num 0 \<and> far (calculations i) = Num 0 \<and>
         is_finite (totalBUA (calculations i)) \<and>
         is_finite (buildableWidth (calculations i)) \<and>
         is_finite (buildableLength (calculations i)) \<and>
         calculations_App j = calculations i"
  unfolding calculations_App_eq assms(8)
  using calculations_Num [OF assms(1-7)] assms(9)
  by simp

theorem zero_plotArea_witness:
  "plotWidth (initial_inputs\<lparr>plotWidth := Num 0\<rparr>) = Num 0 \<and>
   plotLength (initial_inputs\<lparr>plotWidth := Num 0\<rparr>) = Num 60 \<and>
   setbackFront (initial_inputs\<lparr>plotWidth := Num 0\<rparr>) = Num 10 \<and>
   setbackBack (initial_inputs\<lparr>plotWidth := Num 0\<rparr>) = Num 5 \<and>
   setbackLeft (initial_inputs\<lparr>plotWidth := Num 0\<rparr>) = Num 5 \<and>
   setbackRight (initial_inputs\<lparr>plotWidth := Num 0\<rparr>) = Num 5 \<and>
   floors (initial_inputs\<lparr>plotWidth := Num 0\<rparr>) = Num 5 \<and>
   inputs.truncate (initial_inputs_App\<lparr>plotWidth := Num 0\<rparr>) =
     initial_inputs\<lparr>plotWidth := Num 0\<rparr> \<and>
   (0::real) * 60 = 0 \<and>
   plotArea (calculations (initial_inputs\<lparr>plotWidth := Num 0\<rparr>)) = Num 0 \<and>
   groundCoverage (calculations (initial_inputs\<lparr>plotWidth := Num 0\<rparr>)) = Num 0 \<and>
   far (calculations (initial_inputs\<lparr>plotWidth := Num 0\<rparr>)) = Num 0 \<and>
   groundCoverage (calculations_App (initial_inputs_App\<lparr>plotWidth := Num 0\<rparr>)) = Num 0 \<and>
   far (calculations_App (initial_inputs_App\<lparr>plotWidth := Num 0\<rparr>)) = Num 0"
proof -
  let ?i = "initial_inputs\<lparr>plotWidth := Num 0\<rparr>"
  let ?j = "initial_inputs_App\<lparr>plotWidth := Num 0\<rparr>"
  have h: "plotWidth ?i = Num 0" "plotLength ?i = Num 60"
    "setbackFront ?i = Num 10" "setbackBack ?i = Num 5"
    "setbackLeft ?i = Num 5" "setbackRight ?i = Num 5" "floors ?i = Num 5"
    by (simp_all add: initial_inputs_def)
  have t: "inputs.truncate ?j = ?i"
    by (simp add: inputs.truncate_def initial_inputs_App_def initial_inputs_def)
  have z: "(0::real) * 60 = 0" by simp
  show ?thesis
    using zero_plotArea [OF h t z] h t by simp
qed


text \<open>
  C6. On finite non-negative inputs the buildable width and length returned are numbers
  \<open>\<ge> 0\<close>, however large the setbacks are. The area that enters the total built-up area, the
  coverage and the floor area ratio is the product of these two returned, clamped values,
  and it is \<open>\<ge> 0\<close>: the clamp comes before the multiplication.
\<close>

theorem buildable_nonnegative:
  assumes "plotWidth i = Num W" "plotLength i = Num L"
    and "setbackFront i = Num sF" "setbackBack i = Num sB"
    and "setbackLeft i = Num sL" "setbackRight i = Num sR" "floors i = Num F"
    and "inputs.truncate j = i"
    and "0 \<le> W" "0 \<le> L" "0 \<le> sF" "0 \<le> sB" "0 \<le> sL" "0 \<le> sR"
  shows "(let m = calculations i in
           Num 0 \<le> buildableWidth m \<and> Num 0 \<le> buildableLength m \<and>
           Num 0 \<le> buildableWidth m * buildableLength m \<and>
           totalBUA m = buildableWidth m * buildableLength m * floors i \<and>
           groundCoverage m =
             (if Num 0 < plotArea m
              then buildableWidth m * buildableLength m / plotArea m * Num 100 else Num 0) \<and>
           far m = (if Num 0 < plotArea m then totalBUA m / plotArea m else Num 0)) \<and>
         (let m = calculations_App j in
           Num 0 \<le> buildableWidth m \<and> Num 0 \<le> buildableLength m \<and>
           Num 0 \<le> buildableWidth m * buildableLength m \<and>
           totalBUA m = buildableWidth m * buildableLength m * floors j \<and>
           groundCoverage m =
             (if Num 0 < plotArea m
              then buildableWidth m * buildableLength m / plotArea m * Num 100 else Num 0) \<and>
           far m = (if Num 0 < plotArea m then totalBUA m / plotArea m else Num 0))"
proof -
  have fj: "floors j = floors i"
    using assms(8) by (auto simp add: inputs.truncate_def)
  have sign: "Num 0 \<le> buildableWidth (calculations i)"
    "Num 0 \<le> buildableLength (calculations i)"
    "Num 0 \<le> buildableWidth (calculations i) * buildableLength (calculations i)"
    using calculations_Num [OF assms(1-7)] by (simp_all add: Num_arith)
  have flow: "totalBUA (calculations i) =
      buildableWidth (calculations i) * buildableLength (calculations i) * floors i"
    "groundCoverage (calculations i) =
      (if Num 0 < plotArea (calculations i)
       then buildableWidth (calculations i) * buildableLength (calculations i) /
              plotArea (calculations i) * Num 100
       else Num 0)"
    "far (calculations i) =
      (if Num 0 < plotArea (calculations i)
       then totalBUA (calculations i) / plotArea (calculations i) else Num 0)"
    by (simp_all add: calculations_def Let_def)
  show ?thesis
    unfolding Let_def calculations_App_eq assms(8) fj
    using sign flow by (intro conjI)
qed

text \<open>
  The third example of the specification, with the length setbacks too large as well:
  width 30 with left and right setbacks 20, length 60 with front and back setbacks 40.
  Both differences are negative (\<open>-10\<close> and \<open>-20\<close>, product \<open>200\<close>); the buildable width and
  length returned are \<open>0\<close> and the total built-up area is \<open>0\<close>, not \<open>1000\<close>.
\<close>

theorem buildable_nonnegative_witness:
  "(let i = initial_inputs\<lparr>setbackFront := Num 40, setbackBack := Num 40,
                            setbackLeft := Num 20, setbackRight := Num 20\<rparr>;
        j = initial_inputs_App\<lparr>setbackFront := Num 40, setbackBack := Num 40,
                                setbackLeft := Num 20, setbackRight := Num 20\<rparr>
    in plotWidth i = Num 30 \<and> plotLength i = Num 60 \<and>
       setbackFront i = Num 40 \<and> setbackBack i = Num 40 \<and>
       setbackLeft i = Num 20 \<and> setbackRight i = Num 20 \<and> floors i = Num 5 \<and>
       inputs.truncate j = i \<and>
       (0::real) \<le> 30 \<and> (0::real) \<le> 60 \<and> (0::real) \<le> 40 \<and> (0::real) \<le> 20 \<and>
       Num 0 \<le> buildableWidth (calculations i) \<and>
       Num 0 \<le> buildableLength (calculations i) \<and>
       buildableWidth (calculations i) = Num 0 \<and>
       buildableLength (calculations i) = Num 0 \<and>
       totalBUA (calculations i) = Num 0 \<and>
       Num 0 \<le> buildableWidth (calculations_App j) \<and>
       Num 0 \<le> buildableLength (calculations_App j) \<and>
       buildableWidth (calculations_App j) = Num 0 \<and>
       buildableLength (calculations_App j) = Num 0 \<and>
       totalBUA (calculations_App j) = Num 0)"
proof -
  let ?i = "initial_inputs\<lparr>setbackFront := Num 40, setbackBack := Num 40,
                            setbackLeft := Num 20, setbackRight := Num 20\<rparr>"
  let ?j = "initial_inputs_App\<lparr>setbackFront := Num 40, setbackBack := Num 40,
                                setbackLeft := Num 20, setbackRight := Num 20\<rparr>"
  have h: "plotWidth ?i = Num 30" "plotLength ?i = Num 60"
    "setbackFront ?i = Num 40" "setbackBack ?i = Num 40"
    "setbackLeft ?i = Num 20" "setbackRight ?i = Num 20" "floors ?i = Num 5"
    by (simp_all add: initial_inputs_def)
  have t: "inputs.truncate ?j = ?i"
    by (simp add: inputs.truncate_def initial_inputs_App_def initial_inputs_def)
  have p: "(0::real) \<le> 30" "(0::real) \<le> 60" "(0::real) \<le> 40" "(0::real) \<le> 40"
    "(0::real) \<le> 20" "(0::real) \<le> 20"
    by simp_all
  have v: "buildableWidth (calculations ?i) = Num 0"
    "buildableLength (calculations ?i) = Num 0" "totalBUA (calculations ?i) = Num 0"
    using calculations_Num [OF h] by simp_all
  have s: "Num 0 \<le> buildableWidth (calculations ?i)"
    "Num 0 \<le> buildableLength (calculations ?i)"
    "Num 0 \<le> buildableWidth (calculations_App ?j)"
    "Num 0 \<le> buildableLength (calculations_App ?j)"
    using buildable_nonnegative [OF h t p] by (simp_all add: Let_def)
  show ?thesis
    unfolding Let_def
    using s h t p v by (simp add: calculations_App_eq)
qed

section \<open>The invariant of the input set\<close>

text \<open>What \<open>Math.max(0, x || 0)\<close> is, for each kind of number \<open>x\<close>.\<close>

lemma clamp_cases:
  "Math_max (Num 0) (or_zero x) =
     (case x of Num r \<Rightarrow> Num (max 0 r) | PosInf \<Rightarrow> PosInf | NegInf \<Rightarrow> Num 0 | NaN \<Rightarrow> Num 0)"
  by (cases x) (auto simp add: Math_max_def or_zero_def less_number_def max_def)

lemma clamp_nonnegative: "Num 0 \<le> Math_max (Num 0) (or_zero x)"
  unfolding clamp_cases by (cases x) (simp_all add: less_eq_number_def)

lemma get_set_key: "get_key k (set_key k v i) = v"
  by (cases k) simp_all

lemma nonnegative_set_key:
  assumes "nonnegative i" "Num 0 \<le> v"
  shows "nonnegative (set_key k v i)"
  using assms by (cases k) (simp_all add: nonnegative_def)

lemma nonnegative_initial: "nonnegative initial_inputs"
  by (simp add: nonnegative_def initial_inputs_def less_eq_number_def)

lemma nonnegative_App_initial: "nonnegative_App initial_inputs_App"
  by (simp add: nonnegative_App_def nonnegative_def initial_inputs_App_def less_eq_number_def)

lemma handleChange_preserves:
  assumes "nonnegative s"
  shows "nonnegative (handleChange parseFloat s e)"
  unfolding handleChange_def
  using assms clamp_nonnegative by (rule nonnegative_set_key)

lemma handleChange_App_preserves:
  assumes "nonnegative_App s"
  shows "nonnegative_App (handleChange_App parseFloat s e)"
proof (cases e)
  case (NumberInput k v)
  have "nonnegative (set_key k (Math_max (Num 0) (or_zero (parseFloat v))) s)"
    using assms clamp_nonnegative unfolding nonnegative_App_def
    by (intro nonnegative_set_key) simp_all
  moreover have "stairWidth (set_key k w s) = stairWidth s"
    "stairLength (set_key k w s) = stairLength s"
    "stairX (set_key k w s) = stairX s" "stairY (set_key k w s) = stairY s" for w
    by (cases k; simp)+
  ultimately show ?thesis
    using assms NumberInput by (simp add: nonnegative_App_def)
next
  case (Checkbox t c)
  then show ?thesis
    using assms by (cases t) (simp_all add: nonnegative_App_def nonnegative_def)
qed

text \<open>Every state reached from a state with the invariant has it.\<close>

lemma foldl_handleChange:
  "nonnegative s \<Longrightarrow> nonnegative (foldl (handleChange parseFloat) s es)"
  by (induction es arbitrary: s) (simp_all add: handleChange_preserves)

lemma foldl_handleChange_App:
  "nonnegative_App s \<Longrightarrow> nonnegative_App (foldl (handleChange_App parseFloat) s es)"
  by (induction es arbitrary: s) (simp_all add: handleChange_App_preserves)

text \<open>
  C7. After an edit of a numeric field, from any state, the value stored in that field is
  \<open>0\<close> when \<open>parseFloat\<close> gives \<open>NaN\<close> (an entry that is not a number), \<open>0\<close> when it gives
  a negative number or \<open>-Infinity\<close>, and the parsed number otherwise; it is \<open>\<ge> 0\<close> in
  every case. Hence every state reached from the initial one by a sequence of change
  events has all its numeric fields \<open>\<ge> 0\<close>, in both components (in \<open>App\<close>, checkbox events
  included), whatever \<open>parseFloat\<close> returns.
\<close>

theorem handleChange_nonnegative:
  "get_key (name e) (handleChange parseFloat s e) =
     (case parseFloat (text_value e) of
        Num r \<Rightarrow> Num (max 0 r) | PosInf \<Rightarrow> PosInf | NegInf \<Rightarrow> Num 0 | NaN \<Rightarrow> Num 0) \<and>
   Num 0 \<le> get_key (name e) (handleChange parseFloat s e) \<and>
   nonnegative (foldl (handleChange parseFloat) initial_inputs es) \<and>
   get_key k (handleChange_App parseFloat t (NumberInput k v)) =
     (case parseFloat v of
        Num r \<Rightarrow> Num (max 0 r) | PosInf \<Rightarrow> PosInf | NegInf \<Rightarrow> Num 0 | NaN \<Rightarrow> Num 0) \<and>
   Num 0 \<le> get_key k (handleChange_App parseFloat t (NumberInput k v)) \<and>
   nonnegative_App (foldl (handleChange_App parseFloat) initial_inputs_App es')"
proof -
  have "get_key (name e) (handleChange parseFloat s e) =
      Math_max (Num 0) (or_zero (parseFloat (text_value e)))"
    by (simp add: handleChange_def get_set_key)
  moreover have "get_key k (handleChange_App parseFloat t (NumberInput k v)) =
      Math_max (Num 0) (or_zero (parseFloat v))"
    by (simp add: get_set_key)
  moreover note foldl_handleChange [OF nonnegative_initial]
    foldl_handleChange_App [OF nonnegative_App_initial]
  ultimately show ?thesis
    using clamp_nonnegative by (simp add: clamp_cases)
qed



section \<open>The guard of the diagram\<close>

lemma extents_Num:
  assumes "plotWidth i = Num w" "plotLength i = Num l" "roadWidth i = Num r"
  shows "totalWidthFt i = Num w" "totalHeightFt i = Num (l + r)"
  using assms by (simp_all add: totalWidthFt_def totalHeightFt_def Num_arith)


text \<open>
  In \<open>PlotDiagramApp\<close> the placeholder is returned exactly when the test of the extents
  succeeds, so an \<open>svg\<close>, and with it the scale factor, is computed only for extents that
  are both not \<open>\<le> 0\<close>.
\<close>

lemma PlotDiagramSVG_guard:
  "PlotDiagramSVG i b e = Enter_valid_dimensions \<longleftrightarrow>
     totalWidthFt i \<le> Num 0 \<or> totalHeightFt i \<le> Num 0"
  by (simp add: PlotDiagramSVG_def Let_def)

lemma PlotDiagramSVG_guard_Num:
  assumes "plotWidth i = Num w" "plotLength i = Num l" "roadWidth i = Num r"
  shows "PlotDiagramSVG i b e = Enter_valid_dimensions \<longleftrightarrow> w \<le> 0 \<or> l + r \<le> 0"
  by (simp add: PlotDiagramSVG_guard extents_Num [OF assms] Num_arith)

text \<open>
  C2. The component \<open>App\<close> has no such test. With plot width \<open>0\<close> and the other fields
  at their initial values, the quotient \<open>MAX_SIZE / totalWidthFt\<close> is computed and is
  \<open>Infinity\<close>, and an \<open>svg\<close> is returned, 40 wide with a plot rectangle of width \<open>0\<close>;
  with plot length and road width \<open>0\<close> as well, the scale factor is \<open>Infinity\<close> and the
  \<open>svg\<close> returned has width and height \<open>NaN\<close>. \<open>PlotDiagramApp\<close> returns the
  placeholder on the same numbers.
\<close>

theorem PlotDiagramSVG_App_no_guard:
  "totalWidthFt (initial_inputs_App\<lparr>plotWidth := Num 0\<rparr>) = Num 0 \<and>
   MAX_SIZE / totalWidthFt (initial_inputs_App\<lparr>plotWidth := Num 0\<rparr>) = PosInf \<and>
   PlotDiagramSVG_App (initial_inputs_App\<lparr>plotWidth := Num 0\<rparr>)
       (calculations_App (initial_inputs_App\<lparr>plotWidth := Num 0\<rparr>)) =
     Svg \<lparr> svgWidth = Num 40, svgHeight = Num 540,
           plotRect = \<lparr> rect_x = Num 0, rect_y = Num 0, rect_width = Num 0,
                        rect_height = Num (1000 / 3) \<rparr>,
           roadRect = \<lparr> rect_x = Num 0, rect_y = Num (1000 / 3), rect_width = Num 0,
                        rect_height = Num (500 / 3) \<rparr>,
           roadText = \<lparr> text_x = Num 0, text_y = Num (1250 / 3),
                        text_label = Road_ft (Num 30) \<rparr>,
           buildableRect = \<lparr> rect_x = Num (250 / 9), rect_y = Num (250 / 9),
                             rect_width = Num 0, rect_height = Num 250 \<rparr>,
           buildableText = \<lparr> text_x = Num (250 / 9), text_y = Num (1375 / 9),
                             text_label = Buildable_Area \<rparr>,
           parkingRect = Some \<lparr> rect_x = Num (- (200 / 9)), rect_y = Num (1600 / 9),
                                rect_width = Num 100, rect_height = Num 100 \<rparr>,
           staircaseRect = Some \<lparr> rect_x = Num 0, rect_y = Num 0,
                                  rect_width = Num (100 / 3), rect_height = Num (500 / 9) \<rparr> \<rparr> \<and>
   scale (initial_inputs_App\<lparr>plotWidth := Num 0, plotLength := Num 0, roadWidth := Num 0\<rparr>)
     = PosInf \<and>
   totalWidthFt
       (initial_inputs_App\<lparr>plotWidth := Num 0, plotLength := Num 0, roadWidth := Num 0\<rparr>) *
     scale (initial_inputs_App\<lparr>plotWidth := Num 0, plotLength := Num 0, roadWidth := Num 0\<rparr>)
     + PADDING * Num 2 = NaN \<and>
   PlotDiagramSVG (initial_inputs\<lparr>plotWidth := Num 0\<rparr>)
       (calculations (initial_inputs\<lparr>plotWidth := Num 0\<rparr>)) initial_elements =
     Enter_valid_dimensions"
proof -
  have a: "totalWidthFt (initial_inputs_App\<lparr>plotWidth := Num 0\<rparr>) = Num 0"
    by (simp add: totalWidthFt_def)
  have b: "MAX_SIZE / totalWidthFt (initial_inputs_App\<lparr>plotWidth := Num 0\<rparr>) = PosInf"
    by (simp add: a MAX_SIZE_def Num_arith)
  have s: "scale (initial_inputs_App\<lparr>plotWidth := Num 0\<rparr>) = Num (50 / 9)"
    by (simp add: scale_def totalWidthFt_def totalHeightFt_def initial_inputs_App_def
          Num_arith MAX_SIZE_def Math_min_def less_number_def)
  have m: "calculations_App (initial_inputs_App\<lparr>plotWidth := Num 0\<rparr>) =
      \<lparr> plotArea = Num 0, totalBUA = Num 0, groundCoverage = Num 0, far = Num 0,
        buildableWidth = Num 0, buildableLength = Num 45 \<rparr>"
    by (simp add: calculations_App_def initial_inputs_App_def Let_def Num_arith Math_max_Num)
  have c: "PlotDiagramSVG_App (initial_inputs_App\<lparr>plotWidth := Num 0\<rparr>)
       (calculations_App (initial_inputs_App\<lparr>plotWidth := Num 0\<rparr>)) =
     Svg \<lparr> svgWidth = Num 40, svgHeight = Num 540,
           plotRect = \<lparr> rect_x = Num 0, rect_y = Num 0, rect_width = Num 0,
                        rect_height = Num (1000 / 3) \<rparr>,
           roadRect = \<lparr> rect_x = Num 0, rect_y = Num (1000 / 3), rect_width = Num 0,
                        rect_height = Num (500 / 3) \<rparr>,
           roadText = \<lparr> text_x = Num 0, text_y = Num (1250 / 3),
                        text_label = Road_ft (Num 30) \<rparr>,
           buildableRect = \<lparr> rect_x = Num (250 / 9), rect_y = Num (250 / 9),
                             rect_width = Num 0, rect_height = Num 250 \<rparr>,
           buildableText = \<lparr> text_x = Num (250 / 9), text_y = Num (1375 / 9),
                             text_label = Buildable_Area \<rparr>,
           parkingRect = Some \<lparr> rect_x = Num (- (200 / 9)), rect_y = Num (1600 / 9),
                                rect_width = Num 100, rect_height = Num 100 \<rparr>,
           staircaseRect = Some \<lparr> rect_x = Num 0, rect_y = Num 0,
                                  rect_width = Num (100 / 3), rect_height = Num (500 / 9) \<rparr> \<rparr>"
    unfolding PlotDiagramSVG_App_def m s
    by (simp add: Let_def totalWidthFt_def totalHeightFt_def PADDING_def initial_inputs_App_def
          Num_arith)
  let ?z = "initial_inputs_App\<lparr>plotWidth := Num 0, plotLength := Num 0, roadWidth := Num 0\<rparr>"
  have z: "scale ?z = PosInf"
    by (simp add: scale_def totalWidthFt_def totalHeightFt_def MAX_SIZE_def Num_arith
          Math_min_def less_number_def)
  have n: "totalWidthFt ?z * scale ?z + PADDING * Num 2 = NaN"
    unfolding z by (simp add: totalWidthFt_def times_number_def plus_number_def)
  have g: "PlotDiagramSVG (initial_inputs\<lparr>plotWidth := Num 0\<rparr>)
       (calculations (initial_inputs\<lparr>plotWidth := Num 0\<rparr>)) initial_elements =
     Enter_valid_dimensions"
    by (simp add: PlotDiagramSVG_guard totalWidthFt_def Num_arith)
  show ?thesis
    using a b c z n g by simp
qed



section \<open>The parking rectangle\<close>

text \<open>
  C4, as the code has it. \<open>PlotDiagramApp\<close> returns the placeholder when an extent is
  \<open>\<le> 0\<close> and an \<open>svg\<close> otherwise; \<open>App\<close> always returns an \<open>svg\<close>. In every \<open>svg\<close>
  returned, for all numbers, the parking rectangle is present exactly when the toggle is on
  and the parking width and length are \<open>> 0\<close>. The buildable rectangle is at
  \<open>(setbackLeft * scale, setbackBack * scale)\<close> with size \<open>buildableWidth * scale\<close> by
  \<open>buildableLength * scale\<close>, so its upper edge is the one at the back setback, and the
  road strip starts at \<open>y = plotLength * scale\<close>, below the plot. A parking rectangle drawn
  has size \<open>parkingWidth * scale\<close> by \<open>parkingLength * scale\<close>; its \<open>x\<close> is the \<open>x\<close> of the
  buildable rectangle plus half the difference of the two widths, which centres it
  horizontally, and its \<open>y\<close> is the lower edge \<open>y + height\<close> of the buildable rectangle
  minus its own height: it lies against the lower edge, the one towards the road, and not
  against the back one. Each operation is the program's.
\<close>

theorem parking_rect_placement:
  "((totalWidthFt i \<le> Num 0 \<or> totalHeightFt i \<le> Num 0) \<and>
      PlotDiagramSVG i b e = Enter_valid_dimensions
    \<or> \<not> (totalWidthFt i \<le> Num 0 \<or> totalHeightFt i \<le> Num 0) \<and>
      (\<exists>d. PlotDiagramSVG i b e = Svg d \<and>
         (parkingRect d \<noteq> None \<longleftrightarrow>
            parking e \<and> Num 0 < parkingWidth i \<and> Num 0 < parkingLength i) \<and>
         buildableRect d =
           \<lparr> rect_x = setbackLeft i * scale i, rect_y = setbackBack i * scale i,
             rect_width = buildableWidth b * scale i,
             rect_height = buildableLength b * scale i \<rparr> \<and>
         roadRect d =
           \<lparr> rect_x = Num 0, rect_y = plotLength i * scale i,
             rect_width = plotWidth i * scale i, rect_height = roadWidth i * scale i \<rparr> \<and>
         (\<forall>p. parkingRect d = Some p \<longrightarrow>
            rect_width p = parkingWidth i * scale i \<and>
            rect_height p = parkingLength i * scale i \<and>
            rect_x p =
              rect_x (buildableRect d) + (rect_width (buildableRect d) - rect_width p) / Num 2 \<and>
            rect_y p =
              rect_y (buildableRect d) + rect_height (buildableRect d) - rect_height p))) \<and>
   (\<exists>d. PlotDiagramSVG_App j c = Svg d \<and>
      (parkingRect d \<noteq> None \<longleftrightarrow>
         addParking j \<and> Num 0 < parkingWidth j \<and> Num 0 < parkingLength j) \<and>
      buildableRect d =
        \<lparr> rect_x = setbackLeft j * scale j, rect_y = setbackBack j * scale j,
          rect_width = buildableWidth c * scale j,
          rect_height = buildableLength c * scale j \<rparr> \<and>
      roadRect d =
        \<lparr> rect_x = Num 0, rect_y = plotLength j * scale j,
          rect_width = plotWidth j * scale j, rect_height = roadWidth j * scale j \<rparr> \<and>
      (\<forall>p. parkingRect d = Some p \<longrightarrow>
         rect_width p = parkingWidth j * scale j \<and>
         rect_height p = parkingLength j * scale j \<and>
         rect_x p =
           rect_x (buildableRect d) + (rect_width (buildableRect d) - rect_width p) / Num 2 \<and>
         rect_y p =
           rect_y (buildableRect d) + rect_height (buildableRect d) - rect_height p))"
proof (intro conjI)
  show "(totalWidthFt i \<le> Num 0 \<or> totalHeightFt i \<le> Num 0) \<and>
      PlotDiagramSVG i b e = Enter_valid_dimensions
    \<or> \<not> (totalWidthFt i \<le> Num 0 \<or> totalHeightFt i \<le> Num 0) \<and>
      (\<exists>d. PlotDiagramSVG i b e = Svg d \<and>
         (parkingRect d \<noteq> None \<longleftrightarrow>
            parking e \<and> Num 0 < parkingWidth i \<and> Num 0 < parkingLength i) \<and>
         buildableRect d =
           \<lparr> rect_x = setbackLeft i * scale i, rect_y = setbackBack i * scale i,
             rect_width = buildableWidth b * scale i,
             rect_height = buildableLength b * scale i \<rparr> \<and>
         roadRect d =
           \<lparr> rect_x = Num 0, rect_y = plotLength i * scale i,
             rect_width = plotWidth i * scale i, rect_height = roadWidth i * scale i \<rparr> \<and>
         (\<forall>p. parkingRect d = Some p \<longrightarrow>
            rect_width p = parkingWidth i * scale i \<and>
            rect_height p = parkingLength i * scale i \<and>
            rect_x p =
              rect_x (buildableRect d) + (rect_width (buildableRect d) - rect_width p) / Num 2 \<and>
            rect_y p =
              rect_y (buildableRect d) + rect_height (buildableRect d) - rect_height p))"
  proof (cases "totalWidthFt i \<le> Num 0 \<or> totalHeightFt i \<le> Num 0")
    case True
    then show ?thesis
      by (simp add: PlotDiagramSVG_guard)
  next
    case False
    then show ?thesis
      by (auto simp add: PlotDiagramSVG_def Let_def)
  qed
next
  show "\<exists>d. PlotDiagramSVG_App j c = Svg d \<and>
      (parkingRect d \<noteq> None \<longleftrightarrow>
         addParking j \<and> Num 0 < parkingWidth j \<and> Num 0 < parkingLength j) \<and>
      buildableRect d =
        \<lparr> rect_x = setbackLeft j * scale j, rect_y = setbackBack j * scale j,
          rect_width = buildableWidth c * scale j,
          rect_height = buildableLength c * scale j \<rparr> \<and>
      roadRect d =
        \<lparr> rect_x = Num 0, rect_y = plotLength j * scale j,
          rect_width = plotWidth j * scale j, rect_height = roadWidth j * scale j \<rparr> \<and>
      (\<forall>p. parkingRect d = Some p \<longrightarrow>
         rect_width p = parkingWidth j * scale j \<and>
         rect_height p = parkingLength j * scale j \<and>
         rect_x p =
           rect_x (buildableRect d) + (rect_width (buildableRect d) - rect_width p) / Num 2 \<and>
         rect_y p =
           rect_y (buildableRect d) + rect_height (buildableRect d) - rect_height p)"
    by (auto simp add: PlotDiagramSVG_App_def Let_def)
qed

theorem parking_rect_placement_witness:
  "\<not> (totalWidthFt initial_inputs \<le> Num 0 \<or> totalHeightFt initial_inputs \<le> Num 0) \<and>
   parking initial_elements \<and>
   Num 0 < parkingWidth initial_inputs \<and> Num 0 < parkingLength initial_inputs \<and>
   (\<exists>d p. PlotDiagramSVG initial_inputs (calculations initial_inputs) initial_elements = Svg d \<and>
      parkingRect d = Some p \<and>
      rect_y (buildableRect d) = setbackBack initial_inputs * scale initial_inputs \<and>
      rect_x p =
        rect_x (buildableRect d) + (rect_width (buildableRect d) - rect_width p) / Num 2 \<and>
      rect_y p =
        rect_y (buildableRect d) + rect_height (buildableRect d) - rect_height p) \<and>
   addParking initial_inputs_App \<and>
   Num 0 < parkingWidth initial_inputs_App \<and> Num 0 < parkingLength initial_inputs_App \<and>
   (\<exists>d p. PlotDiagramSVG_App initial_inputs_App (calculations_App initial_inputs_App) = Svg d \<and>
      parkingRect d = Some p \<and>
      rect_y (buildableRect d) = setbackBack initial_inputs_App * scale initial_inputs_App \<and>
      rect_x p =
        rect_x (buildableRect d) + (rect_width (buildableRect d) - rect_width p) / Num 2 \<and>
      rect_y p =
        rect_y (buildableRect d) + rect_height (buildableRect d) - rect_height p)"
proof -
  have g: "\<not> (totalWidthFt initial_inputs \<le> Num 0 \<or> totalHeightFt initial_inputs \<le> Num 0)"
    by (simp add: totalWidthFt_def totalHeightFt_def initial_inputs_def Num_arith)
  have on: "parking initial_elements"
    "Num 0 < parkingWidth initial_inputs" "Num 0 < parkingLength initial_inputs"
    by (simp_all add: initial_elements_def initial_inputs_def Num_arith)
  have on_App: "addParking initial_inputs_App"
    "Num 0 < parkingWidth initial_inputs_App" "Num 0 < parkingLength initial_inputs_App"
    by (simp_all add: initial_inputs_App_def Num_arith)
  note t = parking_rect_placement [of initial_inputs "calculations initial_inputs"
      initial_elements initial_inputs_App "calculations_App initial_inputs_App"]
  from t g have "\<exists>d.
      PlotDiagramSVG initial_inputs (calculations initial_inputs) initial_elements = Svg d \<and>
      (parkingRect d \<noteq> None \<longleftrightarrow>
         parking initial_elements \<and> Num 0 < parkingWidth initial_inputs \<and>
         Num 0 < parkingLength initial_inputs) \<and>
      buildableRect d =
        \<lparr> rect_x = setbackLeft initial_inputs * scale initial_inputs,
          rect_y = setbackBack initial_inputs * scale initial_inputs,
          rect_width = buildableWidth (calculations initial_inputs) * scale initial_inputs,
          rect_height = buildableLength (calculations initial_inputs) * scale initial_inputs \<rparr> \<and>
      roadRect d =
        \<lparr> rect_x = Num 0, rect_y = plotLength initial_inputs * scale initial_inputs,
          rect_width = plotWidth initial_inputs * scale initial_inputs,
          rect_height = roadWidth initial_inputs * scale initial_inputs \<rparr> \<and>
      (\<forall>p. parkingRect d = Some p \<longrightarrow>
         rect_width p = parkingWidth initial_inputs * scale initial_inputs \<and>
         rect_height p = parkingLength initial_inputs * scale initial_inputs \<and>
         rect_x p =
           rect_x (buildableRect d) + (rect_width (buildableRect d) - rect_width p) / Num 2 \<and>
         rect_y p =
           rect_y (buildableRect d) + rect_height (buildableRect d) - rect_height p)"
    by blast
  then obtain d where d:
    "PlotDiagramSVG initial_inputs (calculations initial_inputs) initial_elements = Svg d"
    "parkingRect d \<noteq> None \<longleftrightarrow>
       parking initial_elements \<and> Num 0 < parkingWidth initial_inputs \<and>
       Num 0 < parkingLength initial_inputs"
    "buildableRect d =
        \<lparr> rect_x = setbackLeft initial_inputs * scale initial_inputs,
          rect_y = setbackBack initial_inputs * scale initial_inputs,
          rect_width = buildableWidth (calculations initial_inputs) * scale initial_inputs,
          rect_height = buildableLength (calculations initial_inputs) * scale initial_inputs \<rparr>"
    "\<forall>p. parkingRect d = Some p \<longrightarrow>
       rect_width p = parkingWidth initial_inputs * scale initial_inputs \<and>
       rect_height p = parkingLength initial_inputs * scale initial_inputs \<and>
       rect_x p =
         rect_x (buildableRect d) + (rect_width (buildableRect d) - rect_width p) / Num 2 \<and>
       rect_y p =
         rect_y (buildableRect d) + rect_height (buildableRect d) - rect_height p"
    by blast
  have top: "rect_y (buildableRect d) = setbackBack initial_inputs * scale initial_inputs"
    unfolding d(3) by simp
  from d(2) on have "parkingRect d \<noteq> None"
    by blast
  then obtain p where p: "parkingRect d = Some p"
    using not_None_eq [of "parkingRect d"] by blast
  have first: "\<exists>d p.
      PlotDiagramSVG initial_inputs (calculations initial_inputs) initial_elements = Svg d \<and>
      parkingRect d = Some p \<and>
      rect_y (buildableRect d) = setbackBack initial_inputs * scale initial_inputs \<and>
      rect_x p =
        rect_x (buildableRect d) + (rect_width (buildableRect d) - rect_width p) / Num 2 \<and>
      rect_y p =
        rect_y (buildableRect d) + rect_height (buildableRect d) - rect_height p"
    using d(1,4) top p by blast
  from t have "\<exists>d.
      PlotDiagramSVG_App initial_inputs_App (calculations_App initial_inputs_App) = Svg d \<and>
      (parkingRect d \<noteq> None \<longleftrightarrow>
         addParking initial_inputs_App \<and> Num 0 < parkingWidth initial_inputs_App \<and>
         Num 0 < parkingLength initial_inputs_App) \<and>
      buildableRect d =
        \<lparr> rect_x = setbackLeft initial_inputs_App * scale initial_inputs_App,
          rect_y = setbackBack initial_inputs_App * scale initial_inputs_App,
          rect_width = buildableWidth (calculations_App initial_inputs_App) *
                         scale initial_inputs_App,
          rect_height = buildableLength (calculations_App initial_inputs_App) *
                          scale initial_inputs_App \<rparr> \<and>
      roadRect d =
        \<lparr> rect_x = Num 0, rect_y = plotLength initial_inputs_App * scale initial_inputs_App,
          rect_width = plotWidth initial_inputs_App * scale initial_inputs_App,
          rect_height = roadWidth initial_inputs_App * scale initial_inputs_App \<rparr> \<and>
      (\<forall>p. parkingRect d = Some p \<longrightarrow>
         rect_width p = parkingWidth initial_inputs_App * scale initial_inputs_App \<and>
         rect_height p = parkingLength initial_inputs_App * scale initial_inputs_App \<and>
         rect_x p =
           rect_x (buildableRect d) + (rect_width (buildableRect d) - rect_width p) / Num 2 \<and>
         rect_y p =
           rect_y (buildableRect d) + rect_height (buildableRect d) - rect_height p)"
    by (rule conjunct2)
  then obtain d' where d':
    "PlotDiagramSVG_App initial_inputs_App (calculations_App initial_inputs_App) = Svg d'"
    "parkingRect d' \<noteq> None \<longleftrightarrow>
       addParking initial_inputs_App \<and> Num 0 < parkingWidth initial_inputs_App \<and>
       Num 0 < parkingLength initial_inputs_App"
    "buildableRect d' =
        \<lparr> rect_x = setbackLeft initial_inputs_App * scale initial_inputs_App,
          rect_y = setbackBack initial_inputs_App * scale initial_inputs_App,
          rect_width = buildableWidth (calculations_App initial_inputs_App) *
                         scale initial_inputs_App,
          rect_height = buildableLength (calculations_App initial_inputs_App) *
                          scale initial_inputs_App \<rparr>"
    "\<forall>p. parkingRect d' = Some p \<longrightarrow>
       rect_width p = parkingWidth initial_inputs_App * scale initial_inputs_App \<and>
       rect_height p = parkingLength initial_inputs_App * scale initial_inputs_App \<and>
       rect_x p =
         rect_x (buildableRect d') + (rect_width (buildableRect d') - rect_width p) / Num 2 \<and>
       rect_y p =
         rect_y (buildableRect d') + rect_height (buildableRect d') - rect_height p"
    by blast
  have top': "rect_y (buildableRect d') =
      setbackBack initial_inputs_App * scale initial_inputs_App"
    unfolding d'(3) by simp
  from d'(2) on_App have "parkingRect d' \<noteq> None"
    by blast
  then obtain p' where p': "parkingRect d' = Some p'"
    using not_None_eq [of "parkingRect d'"] by blast
  have second: "\<exists>d p.
      PlotDiagramSVG_App initial_inputs_App (calculations_App initial_inputs_App) = Svg d \<and>
      parkingRect d = Some p \<and>
      rect_y (buildableRect d) = setbackBack initial_inputs_App * scale initial_inputs_App \<and>
      rect_x p =
        rect_x (buildableRect d) + (rect_width (buildableRect d) - rect_width p) / Num 2 \<and>
      rect_y p =
        rect_y (buildableRect d) + rect_height (buildableRect d) - rect_height p"
    using d'(1,4) top' p' by blast
  show ?thesis
    using g on on_App first second by (intro conjI)
qed

text \<open>
  C4 as it is stated fails in the initial state. The buildable rectangle has its upper edge
  at \<open>y = 250/9\<close>, which is the back setback times the scale factor, and its lower edge at
  \<open>250/9 + 250 = 2500/9\<close>, which is the plot length minus the front setback, times the
  scale factor. The parking rectangle has its upper edge at \<open>y = 1600/9\<close> and its lower
  edge at \<open>1600/9 + 100 = 2500/9\<close>: it lies against the front edge of the buildable
  rectangle, 150 away from the back one.
\<close>

theorem parking_back_edge_counterexample:
  "PlotDiagramSVG initial_inputs (calculations initial_inputs) initial_elements =
     Svg \<lparr> svgWidth = Num (620 / 3), svgHeight = Num 540,
           plotRect = \<lparr> rect_x = Num 0, rect_y = Num 0, rect_width = Num (500 / 3),
                        rect_height = Num (1000 / 3) \<rparr>,
           roadRect = \<lparr> rect_x = Num 0, rect_y = Num (1000 / 3), rect_width = Num (500 / 3),
                        rect_height = Num (500 / 3) \<rparr>,
           roadText = \<lparr> text_x = Num (250 / 3), text_y = Num (1250 / 3),
                        text_label = Road_ft (Num 30) \<rparr>,
           buildableRect = \<lparr> rect_x = Num (250 / 9), rect_y = Num (250 / 9),
                             rect_width = Num (1000 / 9), rect_height = Num 250 \<rparr>,
           buildableText = \<lparr> text_x = Num (250 / 3), text_y = Num (1375 / 9),
                             text_label = Buildable_Area \<rparr>,
           parkingRect = Some \<lparr> rect_x = Num (100 / 3), rect_y = Num (1600 / 9),
                                rect_width = Num 100, rect_height = Num 100 \<rparr>,
           staircaseRect = None,
           compassText = \<lparr> text_x = Num (470 / 3), text_y = Num (- 5),
                           text_label = Compass_N \<rparr>,
           compassPath =
             [MoveTo (Num (470 / 3)) (Num 0), LineTo (Num (470 / 3)) (Num 15),
              MoveTo (Num (470 / 3)) (Num 0), LineTo (Num (461 / 3)) (Num 5),
              MoveTo (Num (470 / 3)) (Num 0), LineTo (Num (479 / 3)) (Num 5)],
           widthDimPath =
             [MoveTo (Num 0) (Num (1045 / 3)), LineTo (Num (500 / 3)) (Num (1045 / 3))],
           widthDimText = \<lparr> text_x = Num (250 / 3), text_y = Num (1075 / 3),
                            text_label = Dimension_ft (Num 30) \<rparr>,
           lengthDimPath =
             [MoveTo (Num (545 / 3)) (Num 0), LineTo (Num (545 / 3)) (Num (1000 / 3))],
           lengthDimText = \<lparr> text_x = Num (575 / 3), text_y = Num (500 / 3),
                             text_label = Dimension_ft (Num 60) \<rparr>,
           lengthDimRotate = (Num (- 90), Num (575 / 3), Num (500 / 3)) \<rparr> \<and>
   setbackBack initial_inputs * scale initial_inputs = Num (250 / 9) \<and>
   (plotLength initial_inputs - setbackFront initial_inputs) * scale initial_inputs
     = Num (2500 / 9) \<and>
   Num (250 / 9) + Num 250 = Num (2500 / 9) \<and>
   Num (1600 / 9) + Num 100 = Num (2500 / 9) \<and>
   Num (1600 / 9) \<noteq> Num (250 / 9)"
proof -
  have s: "scale initial_inputs = Num (50 / 9)"
    by (simp add: scale_def totalWidthFt_def totalHeightFt_def initial_inputs_def
          Num_arith MAX_SIZE_def Math_min_Num)
  have m: "calculations initial_inputs =
      \<lparr> plotArea = Num 1800, totalBUA = Num 4500, groundCoverage = Num 50, far = Num 2.5,
        buildableWidth = Num 20, buildableLength = Num 45 \<rparr>"
    using calculations_Num [OF initial_fields] by simp
  have c: "PlotDiagramSVG initial_inputs (calculations initial_inputs) initial_elements =
     Svg \<lparr> svgWidth = Num (620 / 3), svgHeight = Num 540,
           plotRect = \<lparr> rect_x = Num 0, rect_y = Num 0, rect_width = Num (500 / 3),
                        rect_height = Num (1000 / 3) \<rparr>,
           roadRect = \<lparr> rect_x = Num 0, rect_y = Num (1000 / 3), rect_width = Num (500 / 3),
                        rect_height = Num (500 / 3) \<rparr>,
           roadText = \<lparr> text_x = Num (250 / 3), text_y = Num (1250 / 3),
                        text_label = Road_ft (Num 30) \<rparr>,
           buildableRect = \<lparr> rect_x = Num (250 / 9), rect_y = Num (250 / 9),
                             rect_width = Num (1000 / 9), rect_height = Num 250 \<rparr>,
           buildableText = \<lparr> text_x = Num (250 / 3), text_y = Num (1375 / 9),
                             text_label = Buildable_Area \<rparr>,
           parkingRect = Some \<lparr> rect_x = Num (100 / 3), rect_y = Num (1600 / 9),
                                rect_width = Num 100, rect_height = Num 100 \<rparr>,
           staircaseRect = None,
           compassText = \<lparr> text_x = Num (470 / 3), text_y = Num (- 5),
                           text_label = Compass_N \<rparr>,
           compassPath =
             [MoveTo (Num (470 / 3)) (Num 0), LineTo (Num (470 / 3)) (Num 15),
              MoveTo (Num (470 / 3)) (Num 0), LineTo (Num (461 / 3)) (Num 5),
              MoveTo (Num (470 / 3)) (Num 0), LineTo (Num (479 / 3)) (Num 5)],
           widthDimPath =
             [MoveTo (Num 0) (Num (1045 / 3)), LineTo (Num (500 / 3)) (Num (1045 / 3))],
           widthDimText = \<lparr> text_x = Num (250 / 3), text_y = Num (1075 / 3),
                            text_label = Dimension_ft (Num 30) \<rparr>,
           lengthDimPath =
             [MoveTo (Num (545 / 3)) (Num 0), LineTo (Num (545 / 3)) (Num (1000 / 3))],
           lengthDimText = \<lparr> text_x = Num (575 / 3), text_y = Num (500 / 3),
                             text_label = Dimension_ft (Num 60) \<rparr>,
           lengthDimRotate = (Num (- 90), Num (575 / 3), Num (500 / 3)) \<rparr>"
    unfolding PlotDiagramSVG_def m s
    by (simp add: Let_def totalWidthFt_def totalHeightFt_def PADDING_def initial_inputs_def
          initial_elements_def Num_arith)
  have e: "setbackBack initial_inputs * scale initial_inputs = Num (250 / 9)"
    "(plotLength initial_inputs - setbackFront initial_inputs) * scale initial_inputs
       = Num (2500 / 9)"
    unfolding s by (simp_all add: initial_inputs_def Num_arith)
  have n: "Num (250 / 9) + Num 250 = Num (2500 / 9)"
    "Num (1600 / 9) + Num 100 = Num (2500 / 9)"
    "Num (1600 / 9) \<noteq> Num (250 / 9)"
    by (simp_all add: Num_arith)
  show ?thesis
    using c e n by blast
qed

end

